theory Spec2Isabelle
  imports Main "HOL-Library.Word" "HOL-Library.Signed_Division"
begin

section \<open>Telemetry aggregator: a shallow embedding of \<open>src/main.c\<close>\<close>

text \<open>
  The program has three tasks (Aggregator, Producer, a monitoring loop in \<open>main\<close>) and two
  work handlers run on timer expiry. They communicate through three bounded message queues
  and two globals (\<open>frame_counter\<close>, \<open>system_start_time\<close>). Each task's loop body is embedded
  as a function from the system state to the system state; every clock reading
  (\<open>k_uptime_get\<close>) and every random number is an explicit argument.

  Integers. \<open>uint32_t\<close> and \<open>uint8_t\<close> are machine words, so that \<open>++frame_counter\<close> and the
  casts \<open>(uint32_t)\<close> wrap as in C. \<open>int64_t\<close> millisecond timestamps and the \<open>int\<close> sensor
  values are mathematical integers: the clock counts milliseconds since boot, sensor values
  are clamped to 0..100 by the Producer and at most 20 of them are summed, so no signed
  operation of the program leaves its type on values the program produces (and signed
  overflow has no defined result in C). The quotient \<open>/\<close> of C truncates towards zero:
  it is \<open>sdiv\<close>.
\<close>

subsection \<open>Data structures\<close>

type_synonym uint32_t = "32 word"
type_synonym uint8_t = "8 word"
type_synonym int64_t = int
type_synonym c_int = int

record telemetry_frame =
  frame_id :: uint32_t
  timestamp :: int64_t
  uptime :: uint32_t
  latest_sensor_value :: c_int
  sensor_avg_last_200ms :: uint32_t
  degraded :: bool

text \<open>The fields of the two sample structs carry a prefix: both structs call their first
  field \<open>timestamp\<close>, as the frame does.\<close>

record sensor_data =
  sd_timestamp :: int64_t
  sensor_value :: c_int

record uptime_data =
  ud_timestamp :: int64_t
  ud_uptime :: uint32_t

definition SENSOR_AVG_BUFFER_SIZE :: nat where
  "SENSOR_AVG_BUFFER_SIZE = 20"

text \<open>The two arrays of the averaging buffer are lists of length 20; \<open>index\<close> and \<open>count\<close>
  start at 0 and are only incremented (modulo 20, and up to 20), so they are naturals.\<close>

record sensor_avg_buffer =
  sensor_values :: "c_int list"
  timestamps :: "int64_t list"
  index :: nat
  count :: nat

subsection \<open>Constants\<close>

definition TELEMETRY_FRAME_RATE_MS :: int where
  "TELEMETRY_FRAME_RATE_MS = 200"

definition SYNTHETIC_SENSOR_RATE_MS :: int where
  "SYNTHETIC_SENSOR_RATE_MS = 50"

definition UPTIME_RATE_MS :: int where
  "UPTIME_RATE_MS = 1000"

definition SENSOR_QUEUE_SIZE :: nat where
  "SENSOR_QUEUE_SIZE = 10"

definition UPTIME_QUEUE_SIZE :: nat where
  "UPTIME_QUEUE_SIZE = 2"

definition TRIGGER_SYNTHETIC_SENSOR :: uint8_t where
  "TRIGGER_SYNTHETIC_SENSOR = 1"

definition TRIGGER_UPTIME :: uint8_t where
  "TRIGGER_UPTIME = 2"

subsection \<open>Utility functions\<close>

text \<open>
  The difference is the mathematical one. C computes it only when it lies within
  \<open>int64_t\<close>, which it does for any two readings of the clock. Where the check is applied
  to a timestamp that is not a clock reading (the never-written \<open>uptime_msg\<close> of the
  Aggregator), the theorems below either exclude that case or require the difference to
  be within \<open>int64_t\<close>.
\<close>

definition is_data_fresh :: "int64_t \<Rightarrow> int64_t \<Rightarrow> int64_t \<Rightarrow> bool" where
  "is_data_fresh data_timestamp current_time timeout_ms =
     (current_time - data_timestamp \<le> timeout_ms)"

text \<open>\<open>struct sensor_avg_buffer avg_buffer = {0}\<close>\<close>

definition empty_avg_buffer :: sensor_avg_buffer where
  "empty_avg_buffer =
     \<lparr>sensor_values = replicate SENSOR_AVG_BUFFER_SIZE 0,
      timestamps = replicate SENSOR_AVG_BUFFER_SIZE 0,
      index = 0, count = 0\<rparr>"

definition add_sensor_to_avg_buffer :: "sensor_avg_buffer \<Rightarrow> sensor_data \<Rightarrow> sensor_avg_buffer" where
  "add_sensor_to_avg_buffer buffer data =
     buffer
       \<lparr>sensor_values := (sensor_values buffer)[index buffer := sensor_value data],
        timestamps := (timestamps buffer)[index buffer := sd_timestamp data],
        index := (index buffer + 1) mod SENSOR_AVG_BUFFER_SIZE,
        count := (if count buffer < SENSOR_AVG_BUFFER_SIZE then count buffer + 1
                  else count buffer)\<rparr>"

text \<open>The \<open>for\<close> loop of \<open>calculate_sensor_avg_200ms\<close>, from position \<open>i\<close> with the running
  \<open>sum\<close> and \<open>count\<close> of the function's locals.\<close>

function avg_loop :: "sensor_avg_buffer \<Rightarrow> int64_t \<Rightarrow> nat \<Rightarrow> c_int \<times> c_int \<Rightarrow> c_int \<times> c_int" where
  "avg_loop buffer cutoff_time i (acc_sum, acc_count) =
     (if i < count buffer then
        avg_loop buffer cutoff_time (i + 1)
          (if timestamps buffer ! i \<ge> cutoff_time
           then (acc_sum + sensor_values buffer ! i, acc_count + 1)
           else (acc_sum, acc_count))
      else (acc_sum, acc_count))"
  by pat_completeness auto
termination
  by (relation "measure (\<lambda>(buffer, cutoff_time, i, acc). count buffer - i)") auto

text \<open>\<open>now\<close> is the value \<open>get_current_timestamp_ms()\<close> returns inside the function.\<close>

definition calculate_sensor_avg_200ms :: "sensor_avg_buffer \<Rightarrow> int64_t \<Rightarrow> uint32_t" where
  "calculate_sensor_avg_200ms buffer now =
     (let cutoff_time = now - 200;
          (acc_sum, acc_count) = avg_loop buffer cutoff_time 0 (0, 0)
      in if acc_count > 0 then word_of_int (acc_sum sdiv acc_count) else 0)"

subsection \<open>Message queues\<close>

text \<open>
  Modelled from the spec: the message queues of the Zephyr kernel (\<open>k_msgq_put\<close>,
  \<open>k_msgq_get\<close>), which are not code of this repository. The specification has bounded
  queues with a non-blocking publish. A queue is the list of its messages, oldest first.
  With \<open>K_NO_WAIT\<close>, \<open>k_msgq_put\<close> on a queue with room appends the message and returns 0;
  on a full queue it returns at once with a non-zero error code and leaves the queue as
  it was: \<open>None\<close> here. \<open>k_msgq_get\<close> removes the oldest message; the loops that call it
  until it fails are recursions over the queue's list.
\<close>

definition k_msgq_put :: "nat \<Rightarrow> 'a list \<Rightarrow> 'a \<Rightarrow> 'a list option" where
  "k_msgq_put max_msgs q msg = (if length q < max_msgs then Some (q @ [msg]) else None)"

subsection \<open>System state\<close>

datatype warning =
    Sensor_trigger_queue_full
  | Uptime_trigger_queue_full
  | Sensor_queue_full
  | Uptime_queue_full
  | Frame_deadline_missed int64_t

datatype console_line =
    FRAME telemetry_frame
  | STATUS uint32_t int64_t

text \<open>
  The globals (\<open>frame_counter\<close>, \<open>system_start_time\<close>, the three queues), the locals of
  \<open>telemetry_aggregator_thread_func\<close> that live across iterations of its loop (\<open>aggr_\<close>),
  the static \<open>counter\<close> of \<open>synthetic_sensor_data\<close>, \<open>last_status_time\<close> of \<open>main\<close>, and what
  the program has written: the warnings of \<open>LOG_WRN\<close> and the lines of \<open>printk\<close>.
\<close>

record system_state =
  frame_counter :: uint32_t
  system_start_time :: int64_t
  sensor_msgq :: "sensor_data list"
  uptime_msgq :: "uptime_data list"
  trigger_msgq :: "uint8_t list"
  aggr_last_frame_time :: int64_t
  aggr_uptime_msg :: uptime_data
  aggr_sensor_msg :: sensor_data
  aggr_avg_buffer :: sensor_avg_buffer
  synth_counter :: uint32_t
  main_last_status_time :: int64_t
  log_wrn :: "warning list"
  console :: "console_line list"

text \<open>
  The state when all threads have started. \<open>uptime_msg\<close> and \<open>sensor_msg\<close> of the Aggregator
  are declared without an initialiser: what they hold is not determined by the program, so
  it is a parameter (\<open>stack_uptime\<close>, \<open>stack_sensor\<close>).
\<close>

definition initial_state ::
  "int64_t \<Rightarrow> int64_t \<Rightarrow> int64_t \<Rightarrow> uptime_data \<Rightarrow> sensor_data \<Rightarrow> system_state" where
  "initial_state t_main t_status t_aggr stack_uptime stack_sensor =
     \<lparr>frame_counter = 0,
      system_start_time = t_main,
      sensor_msgq = [],
      uptime_msgq = [],
      trigger_msgq = [],
      aggr_last_frame_time = t_aggr,
      aggr_uptime_msg = stack_uptime,
      aggr_sensor_msg = stack_sensor,
      aggr_avg_buffer = empty_avg_buffer,
      synth_counter = 0,
      main_last_status_time = t_status,
      log_wrn = [],
      console = []\<rparr>"

subsection \<open>Work handlers\<close>

definition synthetic_sensor_work_handler :: "system_state \<Rightarrow> system_state" where
  "synthetic_sensor_work_handler s =
     (case k_msgq_put (SENSOR_QUEUE_SIZE + UPTIME_QUEUE_SIZE) (trigger_msgq s)
             TRIGGER_SYNTHETIC_SENSOR of
        Some q \<Rightarrow> s\<lparr>trigger_msgq := q\<rparr>
      | None \<Rightarrow> s\<lparr>log_wrn := log_wrn s @ [Sensor_trigger_queue_full]\<rparr>)"

definition uptime_work_handler :: "system_state \<Rightarrow> system_state" where
  "uptime_work_handler s =
     (case k_msgq_put (SENSOR_QUEUE_SIZE + UPTIME_QUEUE_SIZE) (trigger_msgq s)
             TRIGGER_UPTIME of
        Some q \<Rightarrow> s\<lparr>trigger_msgq := q\<rparr>
      | None \<Rightarrow> s\<lparr>log_wrn := log_wrn s @ [Uptime_trigger_queue_full]\<rparr>)"

subsection \<open>Producer\<close>

text \<open>
  \<open>sine_term\<close> is \<open>(int)(50.0 * sin(angle))\<close>, a floating-point value the model takes as
  given; \<open>rnd\<close> is what \<open>sys_rand32_get()\<close> returns. The noise is computed in \<open>uint32_t\<close>
  (\<open>rnd % 21 - 10\<close> wraps below 10) and then read as an \<open>int\<close>. The function is only
  called with the address of a local, so its \<open>NULL\<close> check never returns early; the
  increment of its static \<open>counter\<close> is in \<open>producer_step\<close>.
\<close>

definition synthetic_sensor_data :: "int64_t \<Rightarrow> c_int \<Rightarrow> uint32_t \<Rightarrow> sensor_data" where
  "synthetic_sensor_data now sine_term rnd =
     (let base_value = sine_term + 50;
          noise = sint (rnd mod 21 - 10);
          v = base_value + noise;
          v = (if v < 0 then 0 else v);
          v = (if v > 100 then 100 else v)
      in \<lparr>sd_timestamp = now, sensor_value = v\<rparr>)"

text \<open>
  One iteration of the loop of \<open>producer_thread_func\<close>. \<open>k_msgq_get\<close> with \<open>K_FOREVER\<close> waits
  for a trigger: on an empty trigger queue the Producer does not run.
\<close>

definition producer_step :: "int64_t \<Rightarrow> c_int \<Rightarrow> uint32_t \<Rightarrow> system_state \<Rightarrow> system_state" where
  "producer_step now sine_term rnd s =
     (case trigger_msgq s of
        [] \<Rightarrow> s
      | trigger_id # rest \<Rightarrow>
          (let s1 = s\<lparr>trigger_msgq := rest\<rparr> in
           if trigger_id = TRIGGER_SYNTHETIC_SENSOR then
             (let smsg = synthetic_sensor_data now sine_term rnd;
                  s2 = s1\<lparr>synth_counter := synth_counter s1 + 1\<rparr>
              in case k_msgq_put SENSOR_QUEUE_SIZE (sensor_msgq s2) smsg of
                   Some q \<Rightarrow> s2\<lparr>sensor_msgq := q\<rparr>
                 | None \<Rightarrow> s2\<lparr>log_wrn := log_wrn s2 @ [Sensor_queue_full]\<rparr>)
           else if trigger_id = TRIGGER_UPTIME then
             (let umsg = \<lparr>ud_timestamp = now,
                          ud_uptime = word_of_int ((now - system_start_time s1) sdiv 1000)\<rparr>
              in case k_msgq_put UPTIME_QUEUE_SIZE (uptime_msgq s1) umsg of
                   Some q \<Rightarrow> s1\<lparr>uptime_msgq := q\<rparr>
                 | None \<Rightarrow> s1\<lparr>log_wrn := log_wrn s1 @ [Uptime_queue_full]\<rparr>)
           else s1))"

subsection \<open>Aggregator\<close>

text \<open>\<open>while (k_msgq_get(&uptime_msgq, &uptime_msg, K_NO_WAIT) == 0) { }\<close>: every message
  read overwrites \<open>uptime_msg\<close>; an empty queue leaves it as it was.\<close>

fun drain_uptime_msgq :: "uptime_data list \<Rightarrow> uptime_data \<Rightarrow> uptime_data" where
  "drain_uptime_msgq [] umsg = umsg"
| "drain_uptime_msgq (m # q) umsg = drain_uptime_msgq q m"

text \<open>The sensor loop, on the triple (\<open>sensor_valid\<close>, \<open>sensor_msg\<close>, \<open>avg_buffer\<close>).\<close>

fun drain_sensor_msgq ::
  "sensor_data list \<Rightarrow> bool \<times> sensor_data \<times> sensor_avg_buffer
     \<Rightarrow> bool \<times> sensor_data \<times> sensor_avg_buffer" where
  "drain_sensor_msgq [] st = st"
| "drain_sensor_msgq (m # q) (sensor_valid, smsg, buffer) =
     drain_sensor_msgq q (True, m, add_sensor_to_avg_buffer buffer m)"

text \<open>
  One iteration of the loop of \<open>telemetry_aggregator_thread_func\<close>, from the return of
  \<open>k_timer_status_sync\<close>. The body reads the clock three times: \<open>t_wake\<close> is
  \<open>current_frame_time\<close>, \<open>t_frame\<close> is \<open>frame.timestamp\<close>, and \<open>t_avg\<close> is the reading inside
  \<open>calculate_sensor_avg_200ms\<close>. The result is the frame printed and the next state.
\<close>

definition telemetry_aggregator_cycle ::
  "int64_t \<Rightarrow> int64_t \<Rightarrow> int64_t \<Rightarrow> system_state \<Rightarrow> telemetry_frame \<times> system_state" where
  "telemetry_aggregator_cycle t_wake t_frame t_avg s =
     (let current_frame_time = t_wake;
          missed = (current_frame_time - aggr_last_frame_time s > TELEMETRY_FRAME_RATE_MS + 10);
          frame_deadline_met = (if missed then False else True);
          wrn = (if missed
                 then [Frame_deadline_missed
                         (current_frame_time - aggr_last_frame_time s - TELEMETRY_FRAME_RATE_MS)]
                 else []);
          umsg = drain_uptime_msgq (uptime_msgq s) (aggr_uptime_msg s);
          (sensor_valid, smsg, buffer) =
             drain_sensor_msgq (sensor_msgq s) (False, aggr_sensor_msg s, aggr_avg_buffer s);
          fc = frame_counter s + 1;
          (up, degraded_u) =
             (if is_data_fresh (ud_timestamp umsg) t_frame (2 * UPTIME_RATE_MS + 10)
              then (ud_uptime umsg, False)
              else (word_of_int ((t_frame - system_start_time s) sdiv 1000), True));
          (lsv, degraded_s) =
             (if sensor_valid \<and>
                 is_data_fresh (sd_timestamp smsg) t_frame (SYNTHETIC_SENSOR_RATE_MS + 10)
              then (sensor_value smsg, degraded_u)
              else (- 1, True));
          frame = \<lparr>frame_id = fc,
                   timestamp = t_frame,
                   uptime = up,
                   latest_sensor_value = lsv,
                   sensor_avg_last_200ms = calculate_sensor_avg_200ms buffer t_avg,
                   degraded = (degraded_s \<or> \<not> frame_deadline_met)\<rparr>
      in (frame,
          s\<lparr>frame_counter := fc,
            uptime_msgq := [],
            sensor_msgq := [],
            aggr_last_frame_time := t_frame,
            aggr_uptime_msg := umsg,
            aggr_sensor_msg := smsg,
            aggr_avg_buffer := buffer,
            log_wrn := log_wrn s @ wrn,
            console := console s @ [FRAME frame]\<rparr>))"

subsection \<open>Monitoring loop of \<open>main\<close>\<close>

text \<open>One iteration after \<open>k_sleep\<close>; \<open>current_time\<close> is the clock reading.\<close>

definition monitor_step :: "int64_t \<Rightarrow> system_state \<Rightarrow> system_state" where
  "monitor_step current_time s =
     (if current_time - main_last_status_time s \<ge> 10000
      then s\<lparr>console := console s @
                 [STATUS (frame_counter s) ((current_time - system_start_time s) sdiv 1000)],
             main_last_status_time := current_time\<rparr>
      else s)"

subsection \<open>Runs of the system\<close>

text \<open>
  What the scheduler runs next, with the clock readings and random values the step is
  given. The load-spike thread touches no state of the pipeline and has no event.
\<close>

datatype event =
    Synthetic_sensor_timer
  | Uptime_timer
  | Producer_wakeup int64_t c_int uint32_t
  | Aggregator_wakeup int64_t int64_t int64_t
  | Monitor_wakeup int64_t

fun system_step :: "event \<Rightarrow> system_state \<Rightarrow> system_state" where
  "system_step Synthetic_sensor_timer s = synthetic_sensor_work_handler s"
| "system_step Uptime_timer s = uptime_work_handler s"
| "system_step (Producer_wakeup now sine_term rnd) s = producer_step now sine_term rnd s"
| "system_step (Aggregator_wakeup t_wake t_frame t_avg) s =
     snd (telemetry_aggregator_cycle t_wake t_frame t_avg s)"
| "system_step (Monitor_wakeup current_time) s = monitor_step current_time s"

definition run :: "event list \<Rightarrow> system_state \<Rightarrow> system_state" where
  "run evs s = fold system_step evs s"

fun emitted_frames :: "console_line list \<Rightarrow> telemetry_frame list" where
  "emitted_frames [] = []"
| "emitted_frames (FRAME f # ls) = f # emitted_frames ls"
| "emitted_frames (STATUS c u # ls) = emitted_frames ls"

subsection \<open>Notions of the specification\<close>

text \<open>
  The following definitions are not code of the program: they name what the specification
  talks about, and the theorems below relate them to the functions above.
\<close>

text \<open>The entries stored in the ring: the first \<open>count\<close> slots, as (timestamp, value).\<close>

definition ring_entries :: "sensor_avg_buffer \<Rightarrow> (int64_t \<times> c_int) list" where
  "ring_entries b = take (count b) (zip (timestamps b) (sensor_values b))"

text \<open>The values of the stored entries whose timestamp is at least \<open>now - 200\<close>.\<close>

definition window_values :: "sensor_avg_buffer \<Rightarrow> int64_t \<Rightarrow> c_int list" where
  "window_values b now = map snd (filter (\<lambda>e. fst e \<ge> now - 200) (ring_entries b))"

text \<open>The range of a sensor sample's value in the data model.\<close>

definition in_sensor_range :: "c_int \<Rightarrow> bool" where
  "in_sensor_range v = (0 \<le> v \<and> v \<le> 100)"

text \<open>A well-formed averaging buffer: two arrays of 20 slots, \<open>index\<close> and \<open>count\<close> within
  them, and every slot a value of the data model (a slot never written holds 0).\<close>

definition avg_buffer_ok :: "sensor_avg_buffer \<Rightarrow> bool" where
  "avg_buffer_ok b =
     (length (sensor_values b) = SENSOR_AVG_BUFFER_SIZE \<and>
      length (timestamps b) = SENSOR_AVG_BUFFER_SIZE \<and>
      index b < SENSOR_AVG_BUFFER_SIZE \<and>
      count b \<le> SENSOR_AVG_BUFFER_SIZE \<and>
      list_all in_sensor_range (sensor_values b))"

text \<open>The samples waiting in the sensor queue are values of the data model.\<close>

definition sensor_queue_ok :: "sensor_data list \<Rightarrow> bool" where
  "sensor_queue_ok q = list_all (\<lambda>d. in_sensor_range (sensor_value d)) q"

text \<open>The uptime sample the frame is built from: the last one of the queue, or, when the
  queue is empty, what the Aggregator's \<open>uptime_msg\<close> holds from earlier cycles.\<close>

definition current_uptime_sample :: "system_state \<Rightarrow> uptime_data" where
  "current_uptime_sample s =
     (if uptime_msgq s = [] then aggr_uptime_msg s else last (uptime_msgq s))"

text \<open>The three conditions of a cycle that starts in state \<open>s\<close>: the current uptime sample is
  older than 2010 ms at frame time; no sensor sample is drained in this cycle, or the last
  one drained is older than 60 ms at frame time; the wake is more than 210 ms after the
  reference time the Aggregator keeps.\<close>

definition stale_uptime :: "int64_t \<Rightarrow> system_state \<Rightarrow> bool" where
  "stale_uptime t_frame s = (t_frame - ud_timestamp (current_uptime_sample s) > 2010)"

definition stale_sensor :: "int64_t \<Rightarrow> system_state \<Rightarrow> bool" where
  "stale_sensor t_frame s =
     (sensor_msgq s = [] \<or> t_frame - sd_timestamp (last (sensor_msgq s)) > 60)"

definition deadline_missed :: "int64_t \<Rightarrow> system_state \<Rightarrow> bool" where
  "deadline_missed t_wake s = (t_wake - aggr_last_frame_time s > 210)"

text \<open>What the specification calls \<open>deadline_met\<close>: at most 210 ms have elapsed since the
  last wake.\<close>

definition spec_deadline_met :: "int64_t \<Rightarrow> int64_t \<Rightarrow> bool" where
  "spec_deadline_met t_last_wake t_wake = (t_wake - t_last_wake \<le> 210)"

text \<open>The values of an \<open>int64_t\<close>.\<close>

definition int64_range :: "int \<Rightarrow> bool" where
  "int64_range x = (- (2 ^ 63) \<le> x \<and> x < 2 ^ 63)"

fun is_aggregator_wakeup :: "event \<Rightarrow> bool" where
  "is_aggregator_wakeup (Aggregator_wakeup t_wake t_frame t_avg) = True"
| "is_aggregator_wakeup e = False"

fun is_monitor_wakeup :: "event \<Rightarrow> bool" where
  "is_monitor_wakeup (Monitor_wakeup current_time) = True"
| "is_monitor_wakeup e = False"

text \<open>The number of Aggregator cycles in a run.\<close>

definition aggregator_wakeups :: "event list \<Rightarrow> nat" where
  "aggregator_wakeups evs = length (filter is_aggregator_wakeup evs)"

text \<open>Whether some Aggregator cycle of the run \<open>evs\<close> from \<open>s\<close> finds a sample in the uptime
  queue.\<close>

fun uptime_sample_drained :: "event list \<Rightarrow> system_state \<Rightarrow> bool" where
  "uptime_sample_drained [] s = False"
| "uptime_sample_drained (e # evs) s =
     ((is_aggregator_wakeup e \<and> uptime_msgq s \<noteq> []) \<or>
      uptime_sample_drained evs (system_step e s))"

text \<open>The uptime sample most recently drained by the Aggregator cycles of the run \<open>evs\<close>
  from \<open>s\<close>, if any cycle drained one.\<close>

fun drained_uptime :: "event list \<Rightarrow> system_state \<Rightarrow> uptime_data option" where
  "drained_uptime [] s = None"
| "drained_uptime (e # evs) s =
     (case drained_uptime evs (system_step e s) of
        Some u \<Rightarrow> Some u
      | None \<Rightarrow>
          (if is_aggregator_wakeup e \<and> uptime_msgq s \<noteq> [] then Some (last (uptime_msgq s))
           else None))"

text \<open>The reference time of the deadline check after the run \<open>evs\<close>: the timestamp of the
  last frame of the run, or \<open>t\<close> (the time the Aggregator started) when the run has no
  frame.\<close>

fun reference_time :: "event list \<Rightarrow> int64_t \<Rightarrow> int64_t" where
  "reference_time [] t = t"
| "reference_time (Aggregator_wakeup t_wake t_frame t_avg # evs) t = reference_time evs t_frame"
| "reference_time (e # evs) t = reference_time evs t"

subsection \<open>Example states and runs\<close>

text \<open>The samples of the specification's scenario, and the buffer that holds them.\<close>

definition scenario_samples :: "sensor_data list" where
  "scenario_samples =
     [\<lparr>sd_timestamp = 0, sensor_value = 40\<rparr>, \<lparr>sd_timestamp = 50, sensor_value = 42\<rparr>,
      \<lparr>sd_timestamp = 100, sensor_value = 44\<rparr>, \<lparr>sd_timestamp = 150, sensor_value = 46\<rparr>]"

definition scenario_buffer :: sensor_avg_buffer where
  "scenario_buffer =
     fold (\<lambda>d b. add_sensor_to_avg_buffer b d) scenario_samples empty_avg_buffer"

text \<open>The state of the scenario before its frame is built: the four sensor samples and the
  uptime sample wait in their queues, and the Aggregator started at time 0.\<close>

definition scenario_state :: "int64_t \<Rightarrow> uptime_data \<Rightarrow> sensor_data \<Rightarrow> system_state" where
  "scenario_state t_main stack_uptime stack_sensor =
     (initial_state t_main t_main 0 stack_uptime stack_sensor)
       \<lparr>sensor_msgq := scenario_samples,
        uptime_msgq := [\<lparr>ud_timestamp = 0, ud_uptime = 10\<rparr>]\<rparr>"

text \<open>The same with system start at 0 and zeros in the uninitialised locals.\<close>

definition zero_scenario_state :: system_state where
  "zero_scenario_state =
     scenario_state 0 \<lparr>ud_timestamp = 0, ud_uptime = 0\<rparr> \<lparr>sd_timestamp = 0, sensor_value = 0\<rparr>"

text \<open>An initial state at time 0 whose uninitialised locals hold zeros.\<close>

definition zero_state :: system_state where
  "zero_state =
     initial_state 0 0 0 \<lparr>ud_timestamp = 0, ud_uptime = 0\<rparr> \<lparr>sd_timestamp = 0, sensor_value = 0\<rparr>"

text \<open>\<open>n\<close> Aggregator cycles, one every 200 ms.\<close>

definition periodic_wakeups :: "nat \<Rightarrow> event list" where
  "periodic_wakeups n =
     map (\<lambda>k. Aggregator_wakeup (200 * int k) (200 * int k) (200 * int k)) [1..<n + 1]"

text \<open>Two Aggregator cycles among steps of the other tasks.\<close>

definition mixed_run :: "event list" where
  "mixed_run =
     [Synthetic_sensor_timer, Producer_wakeup 150 0 10, Aggregator_wakeup 200 200 200,
      Monitor_wakeup 300, Uptime_timer, Aggregator_wakeup 400 400 400]"

text \<open>Three sensor samples are produced, at 50, 100 and 150 ms, with values 40, 52 and 50;
  no uptime sample is.\<close>

definition sensor_only_run :: "event list" where
  "sensor_only_run =
     [Synthetic_sensor_timer, Producer_wakeup 50 (- 10) 10, Synthetic_sensor_timer,
      Producer_wakeup 100 0 12, Synthetic_sensor_timer, Producer_wakeup 150 0 10]"

text \<open>The state before the first frame: the system has run from time 0 and three sensor
  samples wait in their queue; no uptime sample exists yet (the first one is due after
  1000 ms), and the Aggregator's \<open>uptime_msg\<close> holds \<open>stack_uptime\<close>.\<close>

definition first_cycle_state :: "uptime_data \<Rightarrow> system_state" where
  "first_cycle_state stack_uptime =
     run sensor_only_run
       (initial_state 0 0 0 stack_uptime \<lparr>sd_timestamp = 0, sensor_value = 0\<rparr>)"

text \<open>The first cycle wakes at 200 ms and stamps its frame at 201 ms; a sample is produced
  at 400 ms; the second cycle wakes at 411 ms.\<close>

definition late_second_wake_run :: "event list" where
  "late_second_wake_run =
     [Aggregator_wakeup 200 201 201, Synthetic_sensor_timer, Producer_wakeup 400 0 10,
      Aggregator_wakeup 411 411 411]"

text \<open>One sensor sample, produced at 590 ms.\<close>

definition late_wake_run :: "event list" where
  "late_wake_run = [Synthetic_sensor_timer, Producer_wakeup 590 0 10]"

text \<open>Eleven sensor timer expiries while the Aggregator does not run: ten samples fill the
  sensor queue, the eleventh trigger waits for the Producer.\<close>

definition overrun_events :: "event list" where
  "overrun_events =
     concat (map (\<lambda>k. [Synthetic_sensor_timer, Producer_wakeup (50 * int k) 0 10]) [1..<11]) @
     [Synthetic_sensor_timer]"

text \<open>Five cycles up to 1000 ms, then the first uptime sample, produced at 1000 ms, and a
  sensor sample produced at 1160 ms.\<close>

definition uptime_and_sensor_run :: "event list" where
  "uptime_and_sensor_run =
     periodic_wakeups 5 @
     [Uptime_timer, Producer_wakeup 1000 0 10, Synthetic_sensor_timer, Producer_wakeup 1160 0 10]"

text \<open>After that, a cycle that wakes at 1200 ms and stamps its frame at 1201 ms, a sensor
  sample produced at 1400 ms, and a cycle that wakes at 1411 ms.\<close>

definition wake_211_after_wake_run :: "event list" where
  "wake_211_after_wake_run =
     uptime_and_sensor_run @
     [Aggregator_wakeup 1200 1201 1201, Synthetic_sensor_timer, Producer_wakeup 1400 0 10,
      Aggregator_wakeup 1411 1411 1411]"

section \<open>The averaging buffer\<close>

declare avg_loop.simps [simp del]

lemma avg_loop_filter:
  "count b \<le> length (timestamps b) \<Longrightarrow> count b \<le> length (sensor_values b) \<Longrightarrow>
   avg_loop b c i acc =
     (fst acc + sum_list (map snd (filter (\<lambda>e. fst e \<ge> c) (drop i (ring_entries b)))),
      snd acc + int (length (filter (\<lambda>e. fst e \<ge> c) (drop i (ring_entries b)))))"
proof (induction b c i acc rule: avg_loop.induct)
  case (1 buffer cutoff_time i acc_sum acc_count)
  show ?case
  proof (cases "i < count buffer")
    case False
    then show ?thesis by (simp add: ring_entries_def avg_loop.simps)
  next
    case True
    have len: "i < length (ring_entries buffer)"
      using True "1.prems" by (simp add: ring_entries_def)
    have nth: "ring_entries buffer ! i = (timestamps buffer ! i, sensor_values buffer ! i)"
      using True "1.prems" by (simp add: ring_entries_def)
    have dr: "drop i (ring_entries buffer) =
                (timestamps buffer ! i, sensor_values buffer ! i) # drop (i + 1) (ring_entries buffer)"
      using len nth Cons_nth_drop_Suc [of i "ring_entries buffer"] by simp
    have step: "avg_loop buffer cutoff_time i (acc_sum, acc_count) =
                  avg_loop buffer cutoff_time (i + 1)
                    (if timestamps buffer ! i \<ge> cutoff_time
                     then (acc_sum + sensor_values buffer ! i, acc_count + 1)
                     else (acc_sum, acc_count))"
      using True by (simp add: avg_loop.simps [of buffer cutoff_time i])
    show ?thesis
      unfolding step "1.IH" [OF True "1.prems"] dr by simp
  qed
qed

lemma calculate_sensor_avg_200ms_window:
  assumes "count b \<le> length (timestamps b)" and "count b \<le> length (sensor_values b)"
  shows "calculate_sensor_avg_200ms b now =
           (if window_values b now = [] then 0
            else word_of_int (sum_list (window_values b now) sdiv int (length (window_values b now))))"
  using assms by (simp add: calculate_sensor_avg_200ms_def avg_loop_filter window_values_def Let_def)

lemma sum_list_sensor_range:
  "list_all in_sensor_range vs \<Longrightarrow> 0 \<le> sum_list vs \<and> sum_list vs \<le> 100 * int (length vs)"
  by (induction vs) (auto simp: in_sensor_range_def)

lemma window_values_subset: "set (window_values b now) \<subseteq> set (sensor_values b)"
  by (auto simp: window_values_def ring_entries_def dest!: in_set_takeD set_zip_rightD)

lemma window_values_in_range:
  "avg_buffer_ok b \<Longrightarrow> list_all in_sensor_range (window_values b now)"
  using window_values_subset [of b now] by (auto simp: avg_buffer_ok_def list_all_iff)

lemma mean_in_sensor_range:
  assumes "list_all in_sensor_range vs" and "vs \<noteq> []"
  shows "0 \<le> sum_list vs div int (length vs) \<and> sum_list vs div int (length vs) \<le> 100"
proof -
  have n: "0 < int (length vs)" using assms(2) by simp
  have s: "0 \<le> sum_list vs" "sum_list vs \<le> 100 * int (length vs)"
    using sum_list_sensor_range [OF assms(1)] by simp_all
  have "sum_list vs div int (length vs) \<le> (100 * int (length vs)) div int (length vs)"
    using s(2) n by (intro zdiv_mono1) simp_all
  then have "sum_list vs div int (length vs) \<le> 100" using n by simp
  moreover have "0 \<le> sum_list vs div int (length vs)"
    using s(1) n by (simp add: pos_imp_zdiv_nonneg_iff)
  ultimately show ?thesis by simp
qed

lemma sdiv_nonneg: "0 \<le> a \<Longrightarrow> 0 < b \<Longrightarrow> a sdiv b = a div (b::int)"
  by (simp add: signed_divide_int_def sgn_if)

text \<open>The result of a read on a well-formed buffer.\<close>

lemma windowed_average_of_ok_buffer:
  assumes "avg_buffer_ok b"
  shows "(window_values b now \<noteq> [] \<longrightarrow>
            uint (calculate_sensor_avg_200ms b now) =
              sum_list (window_values b now) div int (length (window_values b now)) \<and>
            0 \<le> uint (calculate_sensor_avg_200ms b now) \<and>
            uint (calculate_sensor_avg_200ms b now) \<le> 100) \<and>
         (window_values b now = [] \<longrightarrow> calculate_sensor_avg_200ms b now = 0)"
proof -
  let ?w = "window_values b now"
  have len: "count b \<le> length (timestamps b)" "count b \<le> length (sensor_values b)"
    using assms by (simp_all add: avg_buffer_ok_def)
  note calc = calculate_sensor_avg_200ms_window [OF len, of now]
  have "uint (calculate_sensor_avg_200ms b now) = sum_list ?w div int (length ?w) \<and>
        0 \<le> uint (calculate_sensor_avg_200ms b now) \<and>
        uint (calculate_sensor_avg_200ms b now) \<le> 100" if ne: "?w \<noteq> []"
  proof -
    have r: "list_all in_sensor_range ?w" by (rule window_values_in_range [OF assms])
    have m: "0 \<le> sum_list ?w div int (length ?w)" "sum_list ?w div int (length ?w) \<le> 100"
      using mean_in_sensor_range [OF r ne] by simp_all
    have sd: "sum_list ?w sdiv int (length ?w) = sum_list ?w div int (length ?w)"
      using sum_list_sensor_range [OF r] ne by (intro sdiv_nonneg) simp_all
    have "uint (word_of_int (sum_list ?w div int (length ?w)) :: uint32_t) =
            sum_list ?w div int (length ?w)"
      using m by (simp add: uint_word_of_int take_bit_int_eq_self)
    then show ?thesis using calc ne sd m by simp
  qed
  moreover have "calculate_sensor_avg_200ms b now = 0" if "?w = []"
    using calc that by simp
  ultimately show ?thesis by blast
qed

text \<open>Inserting samples of the data model keeps the buffer well-formed.\<close>

lemma synthetic_sensor_data_in_range:
  "in_sensor_range (sensor_value (synthetic_sensor_data now sine_term rnd))"
  by (simp add: synthetic_sensor_data_def in_sensor_range_def Let_def)

lemma empty_avg_buffer_ok: "avg_buffer_ok empty_avg_buffer"
  by (simp add: avg_buffer_ok_def empty_avg_buffer_def SENSOR_AVG_BUFFER_SIZE_def
      in_sensor_range_def list_all_iff)

lemma add_sensor_to_avg_buffer_ok:
  assumes "avg_buffer_ok b" and "in_sensor_range (sensor_value d)"
  shows "avg_buffer_ok (add_sensor_to_avg_buffer b d)"
proof -
  have "set ((sensor_values b)[index b := sensor_value d]) \<subseteq>
          insert (sensor_value d) (set (sensor_values b))"
    by (rule set_update_subset_insert)
  then have "list_all in_sensor_range ((sensor_values b)[index b := sensor_value d])"
    using assms by (auto simp: avg_buffer_ok_def list_all_iff)
  then show ?thesis
    using assms(1)
    by (simp add: avg_buffer_ok_def add_sensor_to_avg_buffer_def SENSOR_AVG_BUFFER_SIZE_def)
qed

lemma fold_add_sensor_ok:
  "avg_buffer_ok b \<Longrightarrow> sensor_queue_ok q \<Longrightarrow>
   avg_buffer_ok (fold (\<lambda>d b. add_sensor_to_avg_buffer b d) q b)"
  by (induction q arbitrary: b) (simp_all add: sensor_queue_ok_def add_sensor_to_avg_buffer_ok)

section \<open>One cycle of the Aggregator\<close>

lemma drain_uptime_msgq_last:
  "drain_uptime_msgq q m = (if q = [] then m else last q)"
  by (induction q arbitrary: m) auto

lemma drain_sensor_msgq_fold:
  "drain_sensor_msgq q (v, m, b) =
     (v \<or> q \<noteq> [], if q = [] then m else last q,
      fold (\<lambda>d b. add_sensor_to_avg_buffer b d) q b)"
  by (induction q arbitrary: v m b) auto

text \<open>The frame of a cycle, field by field, and the state the cycle leaves.\<close>

lemma aggregator_frame:
  "fst (telemetry_aggregator_cycle t_wake t_frame t_avg s) =
     \<lparr>frame_id = frame_counter s + 1,
      timestamp = t_frame,
      uptime = (if stale_uptime t_frame s
                then word_of_int ((t_frame - system_start_time s) sdiv 1000)
                else ud_uptime (current_uptime_sample s)),
      latest_sensor_value = (if stale_sensor t_frame s then - 1
                             else sensor_value (last (sensor_msgq s))),
      sensor_avg_last_200ms =
        calculate_sensor_avg_200ms
          (fold (\<lambda>d b. add_sensor_to_avg_buffer b d) (sensor_msgq s) (aggr_avg_buffer s)) t_avg,
      degraded = (stale_uptime t_frame s \<or> stale_sensor t_frame s \<or> deadline_missed t_wake s)\<rparr>"
  by (auto simp add: telemetry_aggregator_cycle_def Let_def drain_uptime_msgq_last
      drain_sensor_msgq_fold stale_uptime_def stale_sensor_def deadline_missed_def
      current_uptime_sample_def is_data_fresh_def TELEMETRY_FRAME_RATE_MS_def
      UPTIME_RATE_MS_def SYNTHETIC_SENSOR_RATE_MS_def)

lemma aggregator_next_state:
  "snd (telemetry_aggregator_cycle t_wake t_frame t_avg s) =
     s\<lparr>frame_counter := frame_counter s + 1,
       uptime_msgq := [],
       sensor_msgq := [],
       aggr_last_frame_time := t_frame,
       aggr_uptime_msg := current_uptime_sample s,
       aggr_sensor_msg := (if sensor_msgq s = [] then aggr_sensor_msg s else last (sensor_msgq s)),
       aggr_avg_buffer :=
         fold (\<lambda>d b. add_sensor_to_avg_buffer b d) (sensor_msgq s) (aggr_avg_buffer s),
       log_wrn := log_wrn s @
         (if deadline_missed t_wake s
          then [Frame_deadline_missed (t_wake - aggr_last_frame_time s - 200)] else []),
       console := console s @ [FRAME (fst (telemetry_aggregator_cycle t_wake t_frame t_avg s))]\<rparr>"
  by (simp add: telemetry_aggregator_cycle_def Let_def drain_uptime_msgq_last
      drain_sensor_msgq_fold deadline_missed_def
      current_uptime_sample_def TELEMETRY_FRAME_RATE_MS_def split: prod.splits)

text \<open>The scenario's state has fresh inputs at 200 ms, and its buffer averages to 43.\<close>

lemma scenario_fresh:
  "\<not> stale_uptime 200 (scenario_state t_main su ss)"
  "\<not> stale_sensor 200 (scenario_state t_main su ss)"
  "\<not> deadline_missed 200 (scenario_state t_main su ss)"
  by (simp_all add: stale_uptime_def stale_sensor_def deadline_missed_def scenario_state_def
      initial_state_def current_uptime_sample_def scenario_samples_def)

lemma scenario_buffer_avg: "calculate_sensor_avg_200ms scenario_buffer 200 = 43"
  by code_simp

text \<open>
  C7. The scenario: sensor samples at 0, 50, 100, 150 ms with values 40, 42, 44, 46 and an
  uptime sample at 0 ms with uptime 10 are drained, and the frame is built at 200 ms. The
  frame has \<open>latest_sensor_value = 46\<close>, average 43, uptime 10 and is not degraded, whatever
  the start time and the initial contents of the Aggregator's locals.
\<close>

theorem scenario_frame:
  "fst (telemetry_aggregator_cycle 200 200 200 (scenario_state t_main stack_uptime stack_sensor)) =
     \<lparr>frame_id = 1, timestamp = 200, uptime = 10, latest_sensor_value = 46,
      sensor_avg_last_200ms = 43, degraded = False\<rparr>"
proof -
  have b: "fold (\<lambda>d b. add_sensor_to_avg_buffer b d)
             (sensor_msgq (scenario_state t_main stack_uptime stack_sensor))
             (aggr_avg_buffer (scenario_state t_main stack_uptime stack_sensor)) = scenario_buffer"
    by (simp add: scenario_state_def initial_state_def scenario_buffer_def)
  show ?thesis
    unfolding aggregator_frame b scenario_buffer_avg
    by (simp add: scenario_fresh)
       (simp add: scenario_state_def initial_state_def current_uptime_sample_def scenario_samples_def)
qed

text \<open>
  C2. If a sensor sample was drained in the cycle and the last one drained is at most
  60 ms old at frame time, \<open>latest_sensor_value\<close> is its value; otherwise it is the sentinel
  -1 and the frame is degraded.
\<close>

theorem latest_sensor_value_fresh_or_sentinel:
  "(sensor_msgq s \<noteq> [] \<and> t_frame - sd_timestamp (last (sensor_msgq s)) \<le> 60 \<longrightarrow>
      latest_sensor_value (fst (telemetry_aggregator_cycle t_wake t_frame t_avg s)) =
        sensor_value (last (sensor_msgq s))) \<and>
   (\<not> (sensor_msgq s \<noteq> [] \<and> t_frame - sd_timestamp (last (sensor_msgq s)) \<le> 60) \<longrightarrow>
      latest_sensor_value (fst (telemetry_aggregator_cycle t_wake t_frame t_avg s)) = - 1 \<and>
      degraded (fst (telemetry_aggregator_cycle t_wake t_frame t_avg s)))"
  by (auto simp add: aggregator_frame stale_sensor_def)

theorem latest_sensor_value_fresh_or_sentinel_witness:
  "sensor_msgq (first_cycle_state \<lparr>ud_timestamp = 0, ud_uptime = 0\<rparr>) \<noteq> [] \<and>
   200 - sd_timestamp (last (sensor_msgq (first_cycle_state \<lparr>ud_timestamp = 0, ud_uptime = 0\<rparr>))) \<le> 60 \<and>
   latest_sensor_value (fst (telemetry_aggregator_cycle 200 200 200
      (first_cycle_state \<lparr>ud_timestamp = 0, ud_uptime = 0\<rparr>))) = 50 \<and>
   \<not> 211 - sd_timestamp (last (sensor_msgq (first_cycle_state \<lparr>ud_timestamp = 0, ud_uptime = 0\<rparr>))) \<le> 60 \<and>
   latest_sensor_value (fst (telemetry_aggregator_cycle 200 211 211
      (first_cycle_state \<lparr>ud_timestamp = 0, ud_uptime = 0\<rparr>))) = - 1 \<and>
   degraded (fst (telemetry_aggregator_cycle 200 211 211
      (first_cycle_state \<lparr>ud_timestamp = 0, ud_uptime = 0\<rparr>)))"
proof -
  let ?s = "first_cycle_state \<lparr>ud_timestamp = 0, ud_uptime = 0\<rparr>"
  have q: "sensor_msgq ?s \<noteq> []" by code_simp
  have l: "sd_timestamp (last (sensor_msgq ?s)) = 150" by code_simp
  have v: "sensor_value (last (sensor_msgq ?s)) = 50" by code_simp
  show ?thesis
    using latest_sensor_value_fresh_or_sentinel [of ?s 200 200 200]
      latest_sensor_value_fresh_or_sentinel [of ?s 211 200 211] q l v
    by simp
qed

text \<open>The uptime field follows the current uptime sample: its uptime when it is at most
  2010 ms old at frame time, otherwise the fallback, with the frame degraded. Until a
  first sample is drained, the current sample is the uninitialised \<open>uptime_msg\<close>.\<close>

lemma uptime_fresh_or_fallback:
  "(t_frame - ud_timestamp (current_uptime_sample s) \<le> 2010 \<longrightarrow>
      uptime (fst (telemetry_aggregator_cycle t_wake t_frame t_avg s)) =
        ud_uptime (current_uptime_sample s)) \<and>
   (\<not> t_frame - ud_timestamp (current_uptime_sample s) \<le> 2010 \<longrightarrow>
      uptime (fst (telemetry_aggregator_cycle t_wake t_frame t_avg s)) =
        word_of_int ((t_frame - system_start_time s) sdiv 1000) \<and>
      degraded (fst (telemetry_aggregator_cycle t_wake t_frame t_avg s)))"
  by (auto simp add: aggregator_frame stale_uptime_def)

text \<open>
  C3. The code at the first cycle, at 200 ms, before any uptime sample exists: the uptime
  queue is empty and \<open>uptime_msg\<close> has never been written, here holding timestamp 0 and
  uptime 777. The sensor samples are fresh and the deadline is met. The frame takes its
  uptime from the uninitialised variable and is not degraded, where the fallback
  (200 - 0) / 1000 = 0 and \<open>degraded = true\<close> are specified.
\<close>

theorem first_frame_uptime_from_uninitialised_sample:
  "uptime_msgq (first_cycle_state \<lparr>ud_timestamp = 0, ud_uptime = 777\<rparr>) = [] \<and>
   uptime (fst (telemetry_aggregator_cycle 200 200 200
      (first_cycle_state \<lparr>ud_timestamp = 0, ud_uptime = 777\<rparr>))) = 777 \<and>
   degraded (fst (telemetry_aggregator_cycle 200 200 200
      (first_cycle_state \<lparr>ud_timestamp = 0, ud_uptime = 777\<rparr>))) = False \<and>
   (word_of_int ((200 - system_start_time (first_cycle_state \<lparr>ud_timestamp = 0, ud_uptime = 777\<rparr>))
      sdiv 1000) :: uint32_t) = 0"
  by code_simp

lemma frame_average_reads_next_buffer:
  "sensor_avg_last_200ms (fst (telemetry_aggregator_cycle t_wake t_frame t_avg s)) =
     calculate_sensor_avg_200ms
       (aggr_avg_buffer (snd (telemetry_aggregator_cycle t_wake t_frame t_avg s))) t_avg"
  by (simp add: aggregator_frame aggregator_next_state)

section \<open>Runs\<close>

lemma emitted_frames_append:
  "emitted_frames (xs @ ys) = emitted_frames xs @ emitted_frames ys"
  by (induction xs rule: emitted_frames.induct) simp_all

lemma run_Nil [simp]: "run [] s = s"
  by (simp add: run_def)

lemma run_Cons [simp]: "run (e # evs) s = run evs (system_step e s)"
  by (simp add: run_def)

lemma run_append: "run (xs @ ys) s = run ys (run xs s)"
  by (simp add: run_def)

lemma non_aggregator_step_keeps:
  assumes "\<not> is_aggregator_wakeup e"
  shows "frame_counter (system_step e s) = frame_counter s"
    and "system_start_time (system_step e s) = system_start_time s"
    and "aggr_last_frame_time (system_step e s) = aggr_last_frame_time s"
    and "aggr_uptime_msg (system_step e s) = aggr_uptime_msg s"
    and "aggr_sensor_msg (system_step e s) = aggr_sensor_msg s"
    and "aggr_avg_buffer (system_step e s) = aggr_avg_buffer s"
    and "emitted_frames (console (system_step e s)) = emitted_frames (console s)"
  using assms
  by (cases e; simp add: synthetic_sensor_work_handler_def uptime_work_handler_def
        producer_step_def monitor_step_def Let_def emitted_frames_append
        split: list.splits option.splits)+

lemma aggregator_step_frame_counter:
  "frame_counter (system_step (Aggregator_wakeup tw tf ta) s) = frame_counter s + 1"
  by (simp add: aggregator_next_state)

lemma aggregator_step_frames:
  "emitted_frames (console (system_step (Aggregator_wakeup tw tf ta) s)) =
     emitted_frames (console s) @ [fst (telemetry_aggregator_cycle tw tf ta s)]"
  by (simp add: aggregator_next_state emitted_frames_append)

lemma run_keeps_without_aggregator:
  assumes "aggregator_wakeups evs = 0"
  shows "aggr_last_frame_time (run evs s) = aggr_last_frame_time s"
    and "frame_counter (run evs s) = frame_counter s"
    and "aggr_avg_buffer (run evs s) = aggr_avg_buffer s"
  using assms
proof (induction evs arbitrary: s)
  case Nil
  { case 1 show ?case by simp next
    case 2 show ?case by simp next
    case 3 show ?case by simp }
next
  case (Cons e evs)
  { case 1
    then have e: "\<not> is_aggregator_wakeup e" and r: "aggregator_wakeups evs = 0"
      by (auto simp: aggregator_wakeups_def split: if_splits)
    show ?case using Cons.IH(1) [OF r] non_aggregator_step_keeps(3) [OF e] by simp
  next
    case 2
    then have e: "\<not> is_aggregator_wakeup e" and r: "aggregator_wakeups evs = 0"
      by (auto simp: aggregator_wakeups_def split: if_splits)
    show ?case using Cons.IH(2) [OF r] non_aggregator_step_keeps(1) [OF e] by simp
  next
    case 3
    then have e: "\<not> is_aggregator_wakeup e" and r: "aggregator_wakeups evs = 0"
      by (auto simp: aggregator_wakeups_def split: if_splits)
    show ?case using Cons.IH(3) [OF r] non_aggregator_step_keeps(6) [OF e] by simp
  }
qed

lemma run_keeps_system_start_time: "system_start_time (run evs s) = system_start_time s"
proof (induction evs arbitrary: s)
  case Nil
  show ?case by simp
next
  case (Cons e evs)
  have "system_start_time (system_step e s) = system_start_time s"
  proof (cases "is_aggregator_wakeup e")
    case True
    then obtain tw tf ta where "e = Aggregator_wakeup tw tf ta" by (cases e) simp_all
    then show ?thesis by (simp add: aggregator_next_state)
  next
    case False
    then show ?thesis by (rule non_aggregator_step_keeps(2))
  qed
  then show ?case using Cons.IH [of "system_step e s"] by simp
qed

subsection \<open>The averaging buffer in reachable states\<close>

lemma system_step_keeps_ok:
  assumes "sensor_queue_ok (sensor_msgq s)" and "avg_buffer_ok (aggr_avg_buffer s)"
  shows "sensor_queue_ok (sensor_msgq (system_step e s)) \<and>
         avg_buffer_ok (aggr_avg_buffer (system_step e s))"
proof (cases e)
  case Synthetic_sensor_timer
  then show ?thesis
    using assms by (simp add: synthetic_sensor_work_handler_def split: option.splits)
next
  case Uptime_timer
  then show ?thesis
    using assms by (simp add: uptime_work_handler_def split: option.splits)
next
  case (Producer_wakeup now sine_term rnd)
  then show ?thesis
    using assms synthetic_sensor_data_in_range [of now sine_term rnd]
    by (auto simp add: producer_step_def Let_def k_msgq_put_def sensor_queue_ok_def
        split: list.splits option.splits if_splits)
next
  case (Aggregator_wakeup tw tf ta)
  then show ?thesis
    using assms fold_add_sensor_ok [OF assms(2) assms(1)]
    by (simp add: aggregator_next_state sensor_queue_ok_def)
next
  case (Monitor_wakeup t)
  then show ?thesis
    using assms by (simp add: monitor_step_def)
qed

lemma run_keeps_ok:
  "sensor_queue_ok (sensor_msgq s) \<Longrightarrow> avg_buffer_ok (aggr_avg_buffer s) \<Longrightarrow>
   sensor_queue_ok (sensor_msgq (run evs s)) \<and> avg_buffer_ok (aggr_avg_buffer (run evs s))"
proof (induction evs arbitrary: s)
  case Nil
  then show ?case by simp
next
  case (Cons e evs)
  then show ?case using system_step_keeps_ok [of s e] by simp
qed

lemma reachable_avg_buffer_ok:
  "avg_buffer_ok (aggr_avg_buffer (run evs (initial_state t_main t_status t_aggr su ss)))"
  using run_keeps_ok [of "initial_state t_main t_status t_aggr su ss" evs]
  by (simp add: initial_state_def sensor_queue_ok_def empty_avg_buffer_ok)

text \<open>
  C4. Every read of the averaging buffer returns the mean (the integer quotient of sum and
  number, as the \<open>uint32_t\<close> result holds it) of exactly the stored entries whose timestamp
  is at least the read time minus 200 ms. With at least one such entry the result lies in
  0..100; with none it is 0, however many older entries the ring still stores. The buffer
  is the Aggregator's after any run of the system from its initial state.
\<close>

theorem windowed_average_is_mean_of_window:
  "(window_values (aggr_avg_buffer (run evs (initial_state t_main t_status t_aggr su ss))) now \<noteq> [] \<longrightarrow>
      uint (calculate_sensor_avg_200ms
              (aggr_avg_buffer (run evs (initial_state t_main t_status t_aggr su ss))) now) =
        sum_list (window_values
              (aggr_avg_buffer (run evs (initial_state t_main t_status t_aggr su ss))) now) div
        int (length (window_values
              (aggr_avg_buffer (run evs (initial_state t_main t_status t_aggr su ss))) now)) \<and>
      0 \<le> uint (calculate_sensor_avg_200ms
              (aggr_avg_buffer (run evs (initial_state t_main t_status t_aggr su ss))) now) \<and>
      uint (calculate_sensor_avg_200ms
              (aggr_avg_buffer (run evs (initial_state t_main t_status t_aggr su ss))) now) \<le> 100) \<and>
   (window_values (aggr_avg_buffer (run evs (initial_state t_main t_status t_aggr su ss))) now = [] \<longrightarrow>
      calculate_sensor_avg_200ms
        (aggr_avg_buffer (run evs (initial_state t_main t_status t_aggr su ss))) now = 0)"
  by (rule windowed_average_of_ok_buffer [OF reachable_avg_buffer_ok])

theorem windowed_average_is_mean_of_window_witness:
  "window_values (aggr_avg_buffer (run (sensor_only_run @ [Aggregator_wakeup 200 200 200]) zero_state))
      200 = [40, 52, 50] \<and>
   uint (calculate_sensor_avg_200ms
      (aggr_avg_buffer (run (sensor_only_run @ [Aggregator_wakeup 200 200 200]) zero_state)) 200) = 47 \<and>
   count (aggr_avg_buffer (run (sensor_only_run @ [Aggregator_wakeup 200 200 200]) zero_state)) = 3 \<and>
   window_values (aggr_avg_buffer (run (sensor_only_run @ [Aggregator_wakeup 200 200 200]) zero_state))
      400 = [] \<and>
   calculate_sensor_avg_200ms
      (aggr_avg_buffer (run (sensor_only_run @ [Aggregator_wakeup 200 200 200]) zero_state)) 400 = 0"
proof -
  let ?b = "aggr_avg_buffer (run (sensor_only_run @ [Aggregator_wakeup 200 200 200]) zero_state)"
  have w: "window_values ?b 200 = [40, 52, 50]" by code_simp
  have w': "window_values ?b 400 = []" by code_simp
  have c: "count ?b = 3" by code_simp
  show ?thesis
    using windowed_average_is_mean_of_window [of "sensor_only_run @ [Aggregator_wakeup 200 200 200]"
        0 0 0 "\<lparr>ud_timestamp = 0, ud_uptime = 0\<rparr>" "\<lparr>sd_timestamp = 0, sensor_value = 0\<rparr>" 200]
      windowed_average_is_mean_of_window [of "sensor_only_run @ [Aggregator_wakeup 200 200 200]"
        0 0 0 "\<lparr>ud_timestamp = 0, ud_uptime = 0\<rparr>" "\<lparr>sd_timestamp = 0, sensor_value = 0\<rparr>" 400]
      w w' c
    by (simp add: zero_state_def)
qed

subsection \<open>Frame identifiers\<close>

lemma run_frame_counter:
  "frame_counter (run evs s) = frame_counter s + word_of_nat (aggregator_wakeups evs)"
proof (induction evs arbitrary: s)
  case Nil
  show ?case by (simp add: aggregator_wakeups_def)
next
  case (Cons e evs)
  show ?case
  proof (cases "is_aggregator_wakeup e")
    case True
    then obtain tw tf ta where e: "e = Aggregator_wakeup tw tf ta" by (cases e) simp_all
    show ?thesis
      using Cons.IH [of "system_step e s"] True aggregator_step_frame_counter [of tw tf ta s]
      by (simp add: e aggregator_wakeups_def)
  next
    case False
    show ?thesis
      using Cons.IH [of "system_step e s"] False non_aggregator_step_keeps(1) [OF False, of s]
      by (simp add: aggregator_wakeups_def)
  qed
qed

lemma run_frame_ids:
  "map frame_id (emitted_frames (console (run evs s))) =
     map frame_id (emitted_frames (console s)) @
     map (\<lambda>k. frame_counter s + word_of_nat k) [1..<aggregator_wakeups evs + 1]"
proof (induction evs arbitrary: s)
  case Nil
  show ?case by (simp add: aggregator_wakeups_def)
next
  case (Cons e evs)
  show ?case
  proof (cases "is_aggregator_wakeup e")
    case True
    then obtain tw tf ta where e: "e = Aggregator_wakeup tw tf ta" by (cases e) simp_all
    have n: "aggregator_wakeups (e # evs) = Suc (aggregator_wakeups evs)"
      using True by (simp add: aggregator_wakeups_def)
    have u: "[1..<Suc (aggregator_wakeups evs) + 1] = 1 # map Suc [1..<aggregator_wakeups evs + 1]"
      by (simp add: upt_conv_Cons map_Suc_upt)
    have fc: "frame_counter (system_step e s) = frame_counter s + 1"
      unfolding e by (rule aggregator_step_frame_counter)
    have fr: "map frame_id (emitted_frames (console (system_step e s))) =
                map frame_id (emitted_frames (console s)) @ [frame_counter s + 1]"
      unfolding e aggregator_step_frames by (simp add: aggregator_frame)
    have "map frame_id (emitted_frames (console (run (e # evs) s))) =
            map frame_id (emitted_frames (console (system_step e s))) @
            map (\<lambda>k. frame_counter (system_step e s) + word_of_nat k)
              [1..<aggregator_wakeups evs + 1]"
      unfolding run_Cons by (rule Cons.IH)
    also have "\<dots> = map frame_id (emitted_frames (console s)) @
                 map (\<lambda>k. frame_counter s + word_of_nat k) [1..<aggregator_wakeups (e # evs) + 1]"
      unfolding fc fr n u by (simp add: comp_def add.assoc del: upt_Suc)
    finally show ?thesis .
  next
    case False
    have n: "aggregator_wakeups (e # evs) = aggregator_wakeups evs"
      using False by (simp add: aggregator_wakeups_def)
    show ?thesis
      using Cons.IH [of "system_step e s"] non_aggregator_step_keeps(1,7) [OF False, of s]
      by (simp add: n del: upt_Suc)
  qed
qed

lemma initial_run_frame_ids:
  "map frame_id (emitted_frames (console (run evs (initial_state t_main t_status t_aggr su ss)))) =
     map word_of_nat [1..<aggregator_wakeups evs + 1]"
  using run_frame_ids [of evs "initial_state t_main t_status t_aggr su ss"]
  by (simp add: initial_state_def del: upt_Suc)

lemma initial_run_frame_id_nth:
  assumes "n < aggregator_wakeups evs"
  shows "frame_id (emitted_frames (console (run evs (initial_state t_main t_status t_aggr su ss))) ! n) =
           word_of_nat (n + 1)"
proof -
  let ?fs = "emitted_frames (console (run evs (initial_state t_main t_status t_aggr su ss)))"
  have m: "map frame_id ?fs = map word_of_nat [1..<aggregator_wakeups evs + 1]"
    by (rule initial_run_frame_ids)
  have l: "length ?fs = aggregator_wakeups evs"
    using arg_cong [OF m, of length] by simp
  have "frame_id (?fs ! n) = map frame_id ?fs ! n"
    using assms l by simp
  also have "\<dots> = map word_of_nat [1..<aggregator_wakeups evs + 1] ! n"
    by (simp only: m)
  also have "\<dots> = word_of_nat (n + 1)"
    using assms by (simp del: upt_Suc)
  finally show ?thesis .
qed

lemma initial_run_frames_length:
  "length (emitted_frames (console (run evs (initial_state t_main t_status t_aggr su ss)))) =
     aggregator_wakeups evs"
  using arg_cong [OF initial_run_frame_ids [of evs t_main t_status t_aggr su ss], of length]
  by simp

text \<open>
  C5 (as amended). In every run from the initial state there is one frame per Aggregator
  cycle, and the \<open>n\<close>-th frame has \<open>frame_id\<close> \<open>n mod 2^32\<close>: identifiers start at 1 and grow
  by one per cycle without gap or repeat for the first \<open>2^32 - 1\<close> frames.
\<close>

theorem frame_id_counts_frames_modulo_word:
  "length (emitted_frames (console (run evs (initial_state t_main t_status t_aggr su ss)))) =
     aggregator_wakeups evs \<and>
   (\<forall>n < aggregator_wakeups evs.
      unat (frame_id (emitted_frames
              (console (run evs (initial_state t_main t_status t_aggr su ss))) ! n)) =
        (n + 1) mod 2 ^ 32 \<and>
      (n + 1 < 2 ^ 32 \<longrightarrow>
         unat (frame_id (emitted_frames
              (console (run evs (initial_state t_main t_status t_aggr su ss))) ! n)) = n + 1))"
  by (simp add: initial_run_frames_length initial_run_frame_id_nth unat_of_nat take_bit_nat_def
      del: of_nat_Suc of_nat_add)

theorem frame_id_counts_frames_modulo_word_witness:
  "aggregator_wakeups mixed_run = 2 \<and>
   (1::nat) < aggregator_wakeups mixed_run \<and> (1::nat) + 1 < 2 ^ 32 \<and>
   unat (frame_id (emitted_frames (console (run mixed_run zero_state)) ! 1)) = 2"
proof -
  have k: "aggregator_wakeups mixed_run = 2"
    by (simp add: aggregator_wakeups_def mixed_run_def)
  show ?thesis
    using frame_id_counts_frames_modulo_word [of mixed_run 0 0 0
        "\<lparr>ud_timestamp = 0, ud_uptime = 0\<rparr>" "\<lparr>sd_timestamp = 0, sensor_value = 0\<rparr>"] k
    by (simp add: zero_state_def)
qed

lemma aggregator_wakeups_periodic: "aggregator_wakeups (periodic_wakeups n) = n"
proof -
  have "filter is_aggregator_wakeup (map (\<lambda>k. Aggregator_wakeup (200 * int k) (200 * int k) (200 * int k)) ks)
          = map (\<lambda>k. Aggregator_wakeup (200 * int k) (200 * int k) (200 * int k)) ks" for ks
    by (induction ks) simp_all
  then show ?thesis
    by (simp add: aggregator_wakeups_def periodic_wakeups_def del: upt_Suc)
qed

text \<open>
  C5 as stated fails: \<open>frame_counter\<close> is a \<open>uint32_t\<close>. In a run of \<open>2^32 + 1\<close> cycles frame
  number \<open>2^32\<close> has \<open>frame_id\<close> 0, and the next frame repeats the identifier of the first.
\<close>

theorem frame_id_wraps_after_2_32_frames:
  "frame_id (emitted_frames (console (run (periodic_wakeups 4294967297) zero_state)) ! 4294967295) = 0 \<and>
   frame_id (emitted_frames (console (run (periodic_wakeups 4294967297) zero_state)) ! 4294967296) =
   frame_id (emitted_frames (console (run (periodic_wakeups 4294967297) zero_state)) ! 0)"
proof -
  have a: "(4294967295::nat) < aggregator_wakeups (periodic_wakeups 4294967297)"
    and b: "(4294967296::nat) < aggregator_wakeups (periodic_wakeups 4294967297)"
    and c: "(0::nat) < aggregator_wakeups (periodic_wakeups 4294967297)"
    by (simp_all only: aggregator_wakeups_periodic)
  show ?thesis
    unfolding zero_state_def initial_run_frame_id_nth [OF a] initial_run_frame_id_nth [OF b]
      initial_run_frame_id_nth [OF c]
    by simp
qed

subsection \<open>The deadline check\<close>

lemma aggregator_log:
  "log_wrn (snd (telemetry_aggregator_cycle t_wake t_frame t_avg s)) =
     log_wrn s @
     (if t_wake - aggr_last_frame_time s > 210
      then [Frame_deadline_missed (t_wake - aggr_last_frame_time s - 200)] else [])"
  by (simp add: aggregator_next_state deadline_missed_def)

lemma aggregator_degraded:
  "degraded (fst (telemetry_aggregator_cycle t_wake t_frame t_avg s)) =
     (stale_uptime t_frame s \<or> stale_sensor t_frame s \<or>
      t_wake - aggr_last_frame_time s > 210)"
  by (simp add: aggregator_frame deadline_missed_def)

text \<open>
  C6 as stated fails. The first cycle reads 200 ms at its wake and 201 ms for its frame;
  the second wakes at 411 ms, which is 211 ms after the last wake. The Aggregator measures
  from 201 ms, finds 210 ms, logs no missed deadline and emits a frame that is not
  degraded.
\<close>

theorem late_since_last_wake_but_deadline_met:
  "\<not> spec_deadline_met 200 411 \<and>
   map degraded (emitted_frames (console (run late_second_wake_run zero_scenario_state))) =
     [False, False] \<and>
   log_wrn (run late_second_wake_run zero_scenario_state) = []"
  by code_simp

text \<open>
  C6 (as amended). A cycle logs a missed deadline, with the overage, exactly when the
  wake's clock reading is more than 210 ms after the reference time the Aggregator keeps:
  the thread's start time before the first frame, afterwards the timestamp of the previous
  frame, whatever the other tasks do in between. A missed deadline makes that frame
  degraded; the next frame is not degraded when its wake is within 210 ms of the previous
  frame's timestamp and its inputs are fresh, whether or not the previous wake was late.
\<close>

theorem deadline_measured_from_previous_frame:
  assumes "aggregator_wakeups evs = 0"
  shows
    "log_wrn (snd (telemetry_aggregator_cycle t_wake t_frame t_avg
        (run evs (initial_state t_main t_status t_aggr su ss)))) =
       log_wrn (run evs (initial_state t_main t_status t_aggr su ss)) @
       (if t_wake - t_aggr > 210 then [Frame_deadline_missed (t_wake - t_aggr - 200)] else []) \<and>
     log_wrn (snd (telemetry_aggregator_cycle t_wake2 t_frame2 t_avg2
        (run evs (snd (telemetry_aggregator_cycle t_wake1 t_frame1 t_avg1 s))))) =
       log_wrn (run evs (snd (telemetry_aggregator_cycle t_wake1 t_frame1 t_avg1 s))) @
       (if t_wake2 - t_frame1 > 210 then [Frame_deadline_missed (t_wake2 - t_frame1 - 200)]
        else []) \<and>
     (t_wake1 - aggr_last_frame_time s > 210 \<longrightarrow>
        degraded (fst (telemetry_aggregator_cycle t_wake1 t_frame1 t_avg1 s))) \<and>
     (t_wake2 - t_frame1 \<le> 210 \<and>
      \<not> stale_uptime t_frame2
          (run evs (snd (telemetry_aggregator_cycle t_wake1 t_frame1 t_avg1 s))) \<and>
      \<not> stale_sensor t_frame2
          (run evs (snd (telemetry_aggregator_cycle t_wake1 t_frame1 t_avg1 s))) \<longrightarrow>
        \<not> degraded (fst (telemetry_aggregator_cycle t_wake2 t_frame2 t_avg2
              (run evs (snd (telemetry_aggregator_cycle t_wake1 t_frame1 t_avg1 s))))))"
proof -
  have a: "aggr_last_frame_time (run evs (initial_state t_main t_status t_aggr su ss)) = t_aggr"
    by (simp add: run_keeps_without_aggregator(1) [OF assms] initial_state_def)
  have b: "aggr_last_frame_time
             (run evs (snd (telemetry_aggregator_cycle t_wake1 t_frame1 t_avg1 s))) = t_frame1"
    by (simp add: run_keeps_without_aggregator(1) [OF assms] aggregator_next_state)
  show ?thesis
    unfolding aggregator_log aggregator_degraded a b by simp
qed

theorem deadline_measured_from_previous_frame_witness:
  "aggregator_wakeups late_wake_run = 0 \<and>
   (450::int) - aggr_last_frame_time zero_scenario_state > 210 \<and>
   degraded (fst (telemetry_aggregator_cycle 450 450 450 zero_scenario_state)) \<and>
   log_wrn (snd (telemetry_aggregator_cycle 450 450 450 zero_scenario_state)) =
     [Frame_deadline_missed 250] \<and>
   (600::int) - 450 \<le> 210 \<and>
   \<not> stale_uptime 600
      (run late_wake_run (snd (telemetry_aggregator_cycle 450 450 450 zero_scenario_state))) \<and>
   \<not> stale_sensor 600
      (run late_wake_run (snd (telemetry_aggregator_cycle 450 450 450 zero_scenario_state))) \<and>
   \<not> degraded (fst (telemetry_aggregator_cycle 600 600 600
      (run late_wake_run (snd (telemetry_aggregator_cycle 450 450 450 zero_scenario_state))))) \<and>
   log_wrn (snd (telemetry_aggregator_cycle 600 600 600
      (run late_wake_run (snd (telemetry_aggregator_cycle 450 450 450 zero_scenario_state))))) =
     [Frame_deadline_missed 250]"
proof -
  let ?s1 = "snd (telemetry_aggregator_cycle 450 450 450 zero_scenario_state)"
  have n: "aggregator_wakeups late_wake_run = 0" by code_simp
  have l: "aggr_last_frame_time zero_scenario_state = 0" by code_simp
  have w: "log_wrn ?s1 = [Frame_deadline_missed 250]" by code_simp
  have w': "log_wrn (run late_wake_run ?s1) = [Frame_deadline_missed 250]" by code_simp
  have u: "\<not> stale_uptime 600 (run late_wake_run ?s1)" by code_simp
  have v: "\<not> stale_sensor 600 (run late_wake_run ?s1)" by code_simp
  show ?thesis
    using deadline_measured_from_previous_frame [OF n, of 0 0 0 0 0 0
        "\<lparr>ud_timestamp = 0, ud_uptime = 0\<rparr>" "\<lparr>sd_timestamp = 0, sensor_value = 0\<rparr>"
        600 600 600 450 450 450 zero_scenario_state] n l w w' u v
    by simp
qed

subsection \<open>Full queues\<close>

text \<open>
  C8. When the Producer takes a sensor trigger and the sensor queue is full, or an uptime
  trigger and the uptime queue is full, the step completes: the queues are as before (the
  sample is dropped and kept nowhere, so nothing retries it) and one warning is logged.
  Whatever the sample queues hold, a step of the Producer that has a trigger consumes it:
  the Producer waits for triggers only, never for room in a queue.
\<close>

theorem full_queue_drops_sample:
  "(trigger_msgq s = TRIGGER_SYNTHETIC_SENSOR # rest \<and>
    SENSOR_QUEUE_SIZE \<le> length (sensor_msgq s) \<longrightarrow>
      producer_step now sine_term rnd s =
        s\<lparr>trigger_msgq := rest,
          synth_counter := synth_counter s + 1,
          log_wrn := log_wrn s @ [Sensor_queue_full]\<rparr>) \<and>
   (trigger_msgq s = TRIGGER_UPTIME # rest \<and>
    UPTIME_QUEUE_SIZE \<le> length (uptime_msgq s) \<longrightarrow>
      producer_step now sine_term rnd s =
        s\<lparr>trigger_msgq := rest,
          log_wrn := log_wrn s @ [Uptime_queue_full]\<rparr>) \<and>
   (trigger_msgq s \<noteq> [] \<longrightarrow>
      trigger_msgq (producer_step now sine_term rnd s) = tl (trigger_msgq s))"
  by (cases "trigger_msgq s")
     (simp_all add: producer_step_def k_msgq_put_def Let_def TRIGGER_SYNTHETIC_SENSOR_def
        TRIGGER_UPTIME_def split: option.splits)

theorem full_queue_drops_sample_witness:
  "trigger_msgq (run overrun_events zero_state) = TRIGGER_SYNTHETIC_SENSOR # [] \<and>
   SENSOR_QUEUE_SIZE \<le> length (sensor_msgq (run overrun_events zero_state)) \<and>
   sensor_msgq (producer_step 550 0 10 (run overrun_events zero_state)) =
     sensor_msgq (run overrun_events zero_state) \<and>
   log_wrn (producer_step 550 0 10 (run overrun_events zero_state)) = [Sensor_queue_full] \<and>
   trigger_msgq (producer_step 550 0 10 (run overrun_events zero_state)) = []"
proof -
  have t: "trigger_msgq (run overrun_events zero_state) = TRIGGER_SYNTHETIC_SENSOR # []"
    by code_simp
  have f: "SENSOR_QUEUE_SIZE \<le> length (sensor_msgq (run overrun_events zero_state))"
    by code_simp
  have w: "log_wrn (run overrun_events zero_state) = []"
    by code_simp
  show ?thesis
    using full_queue_drops_sample [of "run overrun_events zero_state" "[]" 550 0 10] t f w
    by simp
qed

subsection \<open>Who accesses the averaging buffer and the frame counter\<close>

text \<open>
  C9 as stated fails: the monitoring loop of \<open>main\<close> reads \<open>frame_counter\<close>. After eight
  cycles of the Aggregator its step at 10000 ms prints the status line with the count 8;
  the step does not commute with a change of the counter, and with the counter changed to
  0 it prints 0.
\<close>

theorem monitor_reads_frame_counter:
  "monitor_step 10000 ((run (periodic_wakeups 8) zero_state)\<lparr>frame_counter := 0\<rparr>) \<noteq>
     (monitor_step 10000 (run (periodic_wakeups 8) zero_state))\<lparr>frame_counter := 0\<rparr> \<and>
   frame_counter (run (periodic_wakeups 8) zero_state) = 8 \<and>
   last (console (monitor_step 10000 (run (periodic_wakeups 8) zero_state))) = STATUS 8 10 \<and>
   last (console (monitor_step 10000 ((run (periodic_wakeups 8) zero_state)\<lparr>frame_counter := 0\<rparr>))) =
     STATUS 0 10"
  by code_simp

text \<open>
  C9 (as amended). No step of a task other than the Aggregator writes the averaging buffer
  or the frame counter, and none reads the averaging buffer: its effect is the same
  whatever the buffer holds. The Producer and the work handlers do not read the frame
  counter either; the monitoring loop does.
\<close>

theorem buffer_and_counter_access:
  "(\<not> is_aggregator_wakeup e \<longrightarrow>
      aggr_avg_buffer (system_step e s) = aggr_avg_buffer s \<and>
      frame_counter (system_step e s) = frame_counter s \<and>
      system_step e (s\<lparr>aggr_avg_buffer := b\<rparr>) = (system_step e s)\<lparr>aggr_avg_buffer := b\<rparr>) \<and>
   (\<not> is_aggregator_wakeup e \<and> \<not> is_monitor_wakeup e \<longrightarrow>
      system_step e (s\<lparr>frame_counter := c\<rparr>) = (system_step e s)\<lparr>frame_counter := c\<rparr>)"
  by (cases e; simp add: synthetic_sensor_work_handler_def uptime_work_handler_def
        producer_step_def monitor_step_def Let_def
        split: list.splits option.splits)

theorem buffer_and_counter_access_witness:
  "\<not> is_aggregator_wakeup (Producer_wakeup 50 0 10) \<and>
   \<not> is_monitor_wakeup (Producer_wakeup 50 0 10) \<and>
   aggr_avg_buffer (system_step (Producer_wakeup 50 0 10) (system_step Synthetic_sensor_timer zero_state)) =
     empty_avg_buffer \<and>
   frame_counter (system_step (Producer_wakeup 50 0 10) (system_step Synthetic_sensor_timer zero_state)) = 0 \<and>
   system_step (Producer_wakeup 50 0 10)
       ((system_step Synthetic_sensor_timer zero_state)\<lparr>frame_counter := 8\<rparr>) =
     (system_step (Producer_wakeup 50 0 10) (system_step Synthetic_sensor_timer zero_state))
       \<lparr>frame_counter := 8\<rparr>"
proof -
  have b: "aggr_avg_buffer (system_step Synthetic_sensor_timer zero_state) = empty_avg_buffer"
    and c: "frame_counter (system_step Synthetic_sensor_timer zero_state) = 0"
    by (simp_all add: synthetic_sensor_work_handler_def zero_state_def initial_state_def
        split: option.splits)
  show ?thesis
    using buffer_and_counter_access [of "Producer_wakeup 50 0 10"
        "system_step Synthetic_sensor_timer zero_state" empty_avg_buffer 8] b c
    by simp
qed

subsection \<open>Frames built before the first uptime sample is drained\<close>

lemma uptime_sample_drained_append:
  "uptime_sample_drained (xs @ ys) s =
     (uptime_sample_drained xs s \<or> uptime_sample_drained ys (run xs s))"
  by (induction xs arbitrary: s) simp_all

lemma run_keeps_undrained_uptime_msg:
  "\<not> uptime_sample_drained evs s \<Longrightarrow> aggr_uptime_msg (run evs s) = aggr_uptime_msg s"
proof (induction evs arbitrary: s)
  case Nil
  show ?case by simp
next
  case (Cons e evs)
  have r: "\<not> uptime_sample_drained evs (system_step e s)"
    using Cons.prems by simp
  have "aggr_uptime_msg (system_step e s) = aggr_uptime_msg s"
  proof (cases "is_aggregator_wakeup e")
    case True
    then obtain tw tf ta where e: "e = Aggregator_wakeup tw tf ta" by (cases e) simp_all
    have "uptime_msgq s = []" using Cons.prems True by simp
    then show ?thesis by (simp add: e aggregator_next_state current_uptime_sample_def)
  next
    case False
    then show ?thesis by (rule non_aggregator_step_keeps(4))
  qed
  then show ?case using Cons.IH [OF r] by simp
qed

text \<open>
  C10. In a cycle up to which no Aggregator cycle, this one included, has found a sample
  in the uptime queue, the freshness check runs on the uninitialised \<open>uptime_msg\<close>: the
  frame's uptime and the uptime's part in \<open>degraded\<close> are functions of what that variable
  happens to hold. The fallback is taken only if that content looks older than 2010 ms.
  The content is any for which the subtraction of the check stays within \<open>int64_t\<close>.
\<close>

theorem uninitialised_uptime_decides_early_frames:
  assumes "\<not> uptime_sample_drained (evs @ [Aggregator_wakeup t_wake t_frame t_avg])
               (initial_state t_main t_status t_aggr stack_uptime stack_sensor)"
    and "int64_range (t_frame - ud_timestamp stack_uptime)"
  shows
    "uptime (fst (telemetry_aggregator_cycle t_wake t_frame t_avg
        (run evs (initial_state t_main t_status t_aggr stack_uptime stack_sensor)))) =
       (if t_frame - ud_timestamp stack_uptime \<le> 2010 then ud_uptime stack_uptime
        else word_of_int ((t_frame - t_main) sdiv 1000)) \<and>
     degraded (fst (telemetry_aggregator_cycle t_wake t_frame t_avg
        (run evs (initial_state t_main t_status t_aggr stack_uptime stack_sensor)))) =
       (t_frame - ud_timestamp stack_uptime > 2010 \<or>
        stale_sensor t_frame (run evs (initial_state t_main t_status t_aggr stack_uptime stack_sensor)) \<or>
        deadline_missed t_wake (run evs (initial_state t_main t_status t_aggr stack_uptime stack_sensor)))"
proof -
  let ?s0 = "initial_state t_main t_status t_aggr stack_uptime stack_sensor"
  have nd: "\<not> uptime_sample_drained evs ?s0" and q: "uptime_msgq (run evs ?s0) = []"
    using assms(1) by (simp_all add: uptime_sample_drained_append)
  have m: "aggr_uptime_msg (run evs ?s0) = stack_uptime"
    using run_keeps_undrained_uptime_msg [OF nd] by (simp add: initial_state_def)
  have c: "current_uptime_sample (run evs ?s0) = stack_uptime"
    by (simp add: current_uptime_sample_def q m)
  have st: "system_start_time (run evs ?s0) = t_main"
    by (simp add: run_keeps_system_start_time initial_state_def)
  show ?thesis
    by (auto simp add: aggregator_frame stale_uptime_def c st)
qed

theorem uninitialised_uptime_decides_early_frames_witness:
  "\<not> uptime_sample_drained (sensor_only_run @ [Aggregator_wakeup 200 200 200])
        (initial_state 0 0 0 \<lparr>ud_timestamp = 0, ud_uptime = 777\<rparr> \<lparr>sd_timestamp = 0, sensor_value = 0\<rparr>) \<and>
   int64_range (200 - ud_timestamp \<lparr>ud_timestamp = 0, ud_uptime = 777\<rparr>) \<and>
   uptime (fst (telemetry_aggregator_cycle 200 200 200
        (run sensor_only_run
           (initial_state 0 0 0 \<lparr>ud_timestamp = 0, ud_uptime = 777\<rparr> \<lparr>sd_timestamp = 0, sensor_value = 0\<rparr>)))) = 777 \<and>
   \<not> degraded (fst (telemetry_aggregator_cycle 200 200 200
        (run sensor_only_run
           (initial_state 0 0 0 \<lparr>ud_timestamp = 0, ud_uptime = 777\<rparr> \<lparr>sd_timestamp = 0, sensor_value = 0\<rparr>)))) \<and>
   (word_of_int ((200 - 0) sdiv 1000) :: uint32_t) = 0"
proof -
  let ?s0 = "initial_state 0 0 0 \<lparr>ud_timestamp = 0, ud_uptime = 777\<rparr> \<lparr>sd_timestamp = 0, sensor_value = 0\<rparr>"
  have nd: "\<not> uptime_sample_drained (sensor_only_run @ [Aggregator_wakeup 200 200 200]) ?s0"
    by code_simp
  have r: "int64_range (200 - ud_timestamp \<lparr>ud_timestamp = 0, ud_uptime = 777\<rparr>)"
    by (simp add: int64_range_def)
  have s: "\<not> stale_sensor 200 (run sensor_only_run ?s0)" by code_simp
  have d: "\<not> deadline_missed 200 (run sensor_only_run ?s0)" by code_simp
  show ?thesis
    using uninitialised_uptime_decides_early_frames [OF nd r] nd r s d
    by (simp add: signed_divide_int_def)
qed

subsection \<open>The degraded flag\<close>

lemma run_reference_time:
  "aggr_last_frame_time (run evs s) = reference_time evs (aggr_last_frame_time s)"
proof (induction evs arbitrary: s)
  case Nil
  show ?case by simp
next
  case (Cons e evs)
  show ?case
  proof (cases "is_aggregator_wakeup e")
    case True
    then obtain tw tf ta where e: "e = Aggregator_wakeup tw tf ta" by (cases e) simp_all
    show ?thesis using Cons.IH [of "system_step e s"] by (simp add: e aggregator_next_state)
  next
    case False
    have r: "reference_time (e # evs) (aggr_last_frame_time s) =
               reference_time evs (aggr_last_frame_time s)"
      using False by (cases e) simp_all
    show ?thesis
      using Cons.IH [of "system_step e s"] non_aggregator_step_keeps(3) [OF False, of s] r
      by simp
  qed
qed

lemma drained_uptime_None:
  "(drained_uptime evs s = None) = (\<not> uptime_sample_drained evs s)"
proof (induction evs arbitrary: s)
  case Nil
  show ?case by simp
next
  case (Cons e evs)
  show ?case
    using Cons.IH [of "system_step e s"]
    by (cases "drained_uptime evs (system_step e s)") auto
qed

lemma drained_uptime_run:
  "drained_uptime evs s = Some u \<Longrightarrow> aggr_uptime_msg (run evs s) = u"
proof (induction evs arbitrary: s)
  case Nil
  then show ?case by simp
next
  case (Cons e evs)
  show ?case
  proof (cases "drained_uptime evs (system_step e s)")
    case (Some u')
    then have "u' = u" using Cons.prems by simp
    then show ?thesis using Cons.IH [of "system_step e s"] Some by simp
  next
    case None
    then have a: "is_aggregator_wakeup e" and q: "uptime_msgq s \<noteq> []"
      and u: "u = last (uptime_msgq s)"
      using Cons.prems by (auto split: if_splits)
    obtain tw tf ta where e: "e = Aggregator_wakeup tw tf ta" using a by (cases e) simp_all
    have k: "aggr_uptime_msg (run evs (system_step e s)) = aggr_uptime_msg (system_step e s)"
      using None by (intro run_keeps_undrained_uptime_msg) (simp add: drained_uptime_None)
    have "aggr_uptime_msg (system_step e s) = last (uptime_msgq s)"
      using q by (simp add: e aggregator_next_state current_uptime_sample_def)
    then show ?thesis using k u by simp
  qed
qed

text \<open>
  C1 as stated fails. After the first uptime sample has been drained, a cycle wakes at
  1200 ms and stamps its frame at 1201 ms; the next cycle wakes at 1411 ms, 211 ms after
  the last wake and so beyond the deadline tolerance, with fresh uptime and sensor
  samples. The Aggregator measures from 1201 ms, and the frame is not degraded.
\<close>

theorem degraded_false_though_wake_late:
  "\<not> spec_deadline_met 1200 1411 \<and>
   length (emitted_frames (console (run wake_211_after_wake_run zero_state))) = 7 \<and>
   timestamp (emitted_frames (console (run wake_211_after_wake_run zero_state)) ! 5) = 1201 \<and>
   timestamp (emitted_frames (console (run wake_211_after_wake_run zero_state)) ! 6) = 1411 \<and>
   degraded (emitted_frames (console (run wake_211_after_wake_run zero_state)) ! 6) = False"
  by code_simp

text \<open>
  C1 (as amended). In every cycle by which an uptime sample has been drained, in this
  cycle or an earlier one, the \<open>degraded\<close> field of the frame is true exactly when the
  uptime sample most recently drained is older than 2010 ms at frame time, or no sensor
  sample is drained in the cycle or the last one drained is older than 60 ms at frame
  time, or the wake's clock reading is more than 210 ms after the timestamp of the
  previous frame (the time the Aggregator started, before the first frame); with fresh
  inputs and that deadline met it is false. The age of the uptime sample is within
  \<open>int64_t\<close>. Cycles before the first uptime sample is drained are not covered.
\<close>

theorem degraded_iff_stale_or_late_once_uptime_drained:
  assumes "drained_uptime (evs @ [Aggregator_wakeup t_wake t_frame t_avg])
             (initial_state t_main t_status t_aggr su ss) = Some u"
    and "int64_range (t_frame - ud_timestamp u)"
  shows
    "degraded (fst (telemetry_aggregator_cycle t_wake t_frame t_avg
        (run evs (initial_state t_main t_status t_aggr su ss)))) =
       (t_frame - ud_timestamp u > 2010 \<or>
        stale_sensor t_frame (run evs (initial_state t_main t_status t_aggr su ss)) \<or>
        t_wake - reference_time evs t_aggr > 210) \<and>
     (t_frame - ud_timestamp u \<le> 2010 \<and>
      \<not> stale_sensor t_frame (run evs (initial_state t_main t_status t_aggr su ss)) \<and>
      t_wake - reference_time evs t_aggr \<le> 210 \<longrightarrow>
        \<not> degraded (fst (telemetry_aggregator_cycle t_wake t_frame t_avg
              (run evs (initial_state t_main t_status t_aggr su ss)))))"
proof -
  let ?init = "initial_state t_main t_status t_aggr su ss"
  let ?s = "run evs ?init"
  have "aggr_uptime_msg (run (evs @ [Aggregator_wakeup t_wake t_frame t_avg]) ?init) = u"
    by (rule drained_uptime_run [OF assms(1)])
  then have c: "current_uptime_sample ?s = u"
    by (simp add: run_append aggregator_next_state)
  have r: "aggr_last_frame_time ?s = reference_time evs t_aggr"
    by (simp add: run_reference_time initial_state_def)
  have "degraded (fst (telemetry_aggregator_cycle t_wake t_frame t_avg ?s)) =
          (t_frame - ud_timestamp u > 2010 \<or> stale_sensor t_frame ?s \<or>
           t_wake - reference_time evs t_aggr > 210)"
    by (simp add: aggregator_frame stale_uptime_def deadline_missed_def c r)
  then show ?thesis by auto
qed

theorem degraded_iff_stale_or_late_once_uptime_drained_witness:
  "drained_uptime (uptime_and_sensor_run @ [Aggregator_wakeup 1200 1200 1200]) zero_state =
     Some \<lparr>ud_timestamp = 1000, ud_uptime = 1\<rparr> \<and>
   drained_uptime (uptime_and_sensor_run @ [Aggregator_wakeup 1215 1215 1215]) zero_state =
     Some \<lparr>ud_timestamp = 1000, ud_uptime = 1\<rparr> \<and>
   int64_range (1200 - ud_timestamp \<lparr>ud_timestamp = 1000, ud_uptime = 1\<rparr>) \<and>
   int64_range (1215 - ud_timestamp \<lparr>ud_timestamp = 1000, ud_uptime = 1\<rparr>) \<and>
   reference_time uptime_and_sensor_run 0 = 1000 \<and>
   \<not> stale_sensor 1200 (run uptime_and_sensor_run zero_state) \<and>
   \<not> stale_sensor 1215 (run uptime_and_sensor_run zero_state) \<and>
   \<not> degraded (fst (telemetry_aggregator_cycle 1200 1200 1200
        (run uptime_and_sensor_run zero_state))) \<and>
   degraded (fst (telemetry_aggregator_cycle 1215 1215 1215
        (run uptime_and_sensor_run zero_state)))"
proof -
  let ?u = "\<lparr>ud_timestamp = 1000, ud_uptime = 1\<rparr>"
  have d1: "drained_uptime (uptime_and_sensor_run @ [Aggregator_wakeup 1200 1200 1200])
              (initial_state 0 0 0 \<lparr>ud_timestamp = 0, ud_uptime = 0\<rparr>
                 \<lparr>sd_timestamp = 0, sensor_value = 0\<rparr>) = Some ?u"
    by code_simp
  have d2: "drained_uptime (uptime_and_sensor_run @ [Aggregator_wakeup 1215 1215 1215])
              (initial_state 0 0 0 \<lparr>ud_timestamp = 0, ud_uptime = 0\<rparr>
                 \<lparr>sd_timestamp = 0, sensor_value = 0\<rparr>) = Some ?u"
    by code_simp
  have r1: "int64_range (1200 - ud_timestamp ?u)" and r2: "int64_range (1215 - ud_timestamp ?u)"
    by (simp_all add: int64_range_def)
  have t: "reference_time uptime_and_sensor_run 0 = 1000" by code_simp
  have s1: "\<not> stale_sensor 1200 (run uptime_and_sensor_run zero_state)" by code_simp
  have s2: "\<not> stale_sensor 1215 (run uptime_and_sensor_run zero_state)" by code_simp
  show ?thesis
    using degraded_iff_stale_or_late_once_uptime_drained [OF d1 r1]
      degraded_iff_stale_or_late_once_uptime_drained [OF d2 r2] d1 d2 r1 r2 t s1 s2
    by (simp add: zero_state_def)
qed

end
